theory Spec2Isabelle
  imports Main "HOL-Library.Multiset" "HOL-Library.Sublist"
begin

section \<open>Sequence containers, iterators and failures\<close>

text \<open>
  A sequence container is modelled by the list of its elements, an iterator into it by
  the position it designates: \<open>begin()\<close> is position 0, \<open>end()\<close> is the length.
  The library performs no run-time check of its own; where the C++ standard leaves an
  iterator operation without a defined outcome (dereferencing \<open>end()\<close>, stepping beyond
  \<open>end()\<close> or before \<open>begin()\<close>, an invalid range) the model returns \<open>Inl Undefined\<close>.
  \<open>Exception\<close> stands for a C++ exception leaving the call, the only kind of defined
  failure the language offers; none of the operations below raises one itself.
\<close>

datatype failure = Exception | Undefined

definition defined_failure :: "failure + 'a \<Rightarrow> bool" where
  "defined_failure r = (case r of Inl Exception \<Rightarrow> True | Inl Undefined \<Rightarrow> False | Inr v \<Rightarrow> False)"

definition begin_it :: "'a list \<Rightarrow> nat" where
  "begin_it c = 0"

definition end_it :: "'a list \<Rightarrow> nat" where
  "end_it c = length c"

text \<open>\<open>*it\<close>: defined only for an iterator that designates an element.\<close>

definition deref :: "'a list \<Rightarrow> nat \<Rightarrow> failure + 'a" where
  "deref c it = (if it < length c then Inr (c ! it) else Inl Undefined)"

text \<open>\<open>std::next(it, n)\<close> and \<open>std::advance(it, n)\<close>: defined only while the iterator stays
  within \<open>[begin(), end()]\<close>.\<close>

definition next_it :: "'a list \<Rightarrow> nat \<Rightarrow> int \<Rightarrow> failure + nat" where
  "next_it c it n =
     (if 0 \<le> int it + n \<and> int it + n \<le> int (length c) then Inr (nat (int it + n))
      else Inl Undefined)"

text \<open>The elements of the iterator range \<open>[first, last)\<close> of a container; the range must
  be valid.\<close>

definition range_of :: "'a list \<Rightarrow> nat \<Rightarrow> nat \<Rightarrow> failure + 'a list" where
  "range_of c first_it last_it =
     (if first_it \<le> last_it \<and> last_it \<le> length c
      then Inr (take (last_it - first_it) (drop first_it c))
      else Inl Undefined)"

section \<open>Operations of the wrapped container and of the standard algorithms\<close>

text \<open>\<open>c.emplace(c.end(), v)\<close>.\<close>

definition emplace_end :: "'a list \<Rightarrow> 'a \<Rightarrow> 'a list" where
  "emplace_end c v = c @ [v]"




text \<open>\<open>c.erase(first, last)\<close>.\<close>

definition erase :: "'a list \<Rightarrow> nat \<Rightarrow> nat \<Rightarrow> failure + 'a list" where
  "erase c first_it last_it =
     (if first_it \<le> last_it \<and> last_it \<le> length c
      then Inr (take first_it c @ drop last_it c)
      else Inl Undefined)"

text \<open>\<open>std::count_if(first, last, p)\<close> over the whole container: the counting loop,
  with the running count of type \<open>difference_type\<close>. Sizes and differences are unbounded
  numbers here: a container never holds more elements than its \<open>difference_type\<close> counts.\<close>

fun count_if_loop :: "('a \<Rightarrow> bool) \<Rightarrow> 'a list \<Rightarrow> int \<Rightarrow> int" where
  "count_if_loop p [] ret = ret"
| "count_if_loop p (x # xs) ret = count_if_loop p xs (if p x then ret + 1 else ret)"

definition std_count_if :: "('a \<Rightarrow> bool) \<Rightarrow> 'a list \<Rightarrow> int" where
  "std_count_if p c = count_if_loop p c 0"

text \<open>\<open>std::remove_if(first, last, p)\<close> over the whole container: the elements that do
  not satisfy \<open>p\<close> are moved to the front in their order, the positions behind them keep
  what they held, and the iterator behind the last kept element is returned.\<close>

fun remove_if_loop :: "('a \<Rightarrow> bool) \<Rightarrow> 'a list \<Rightarrow> 'a list \<Rightarrow> 'a list" where
  "remove_if_loop p [] kept = kept"
| "remove_if_loop p (x # xs) kept = remove_if_loop p xs (if p x then kept else kept @ [x])"

definition std_remove_if :: "('a \<Rightarrow> bool) \<Rightarrow> 'a list \<Rightarrow> 'a list \<times> nat" where
  "std_remove_if p c =
     (let kept = remove_if_loop p c [] in (kept @ drop (length kept) c, length kept))"











text \<open>\<open>std::accumulate(first, last, init, f)\<close>.\<close>

definition std_accumulate ::
  "'a list \<Rightarrow> nat \<Rightarrow> nat \<Rightarrow> 'b \<Rightarrow> ('b \<Rightarrow> 'a \<Rightarrow> 'b) \<Rightarrow> failure + 'b" where
  "std_accumulate c first_it last_it init f =
     (case range_of c first_it last_it of Inl e \<Rightarrow> Inl e | Inr xs \<Rightarrow> Inr (foldl f init xs))"


section \<open>The extended sequence container\<close>

subsection \<open>Counting, erasing, extending\<close>

definition count_if :: "('a \<Rightarrow> bool) \<Rightarrow> 'a list \<Rightarrow> int" where
  "count_if p c = std_count_if p c"


definition erase_if :: "('a \<Rightarrow> bool) \<Rightarrow> 'a list \<Rightarrow> failure + 'a list" where
  "erase_if p c = (case std_remove_if p c of (c', it) \<Rightarrow> erase c' it (end_it c'))"



subsection \<open>The operations with two overloads\<close>

text \<open>
  \<open>concat\<close>, \<open>filter\<close>, \<open>map\<close>, \<open>take\<close> and \<open>take_while\<close> are overloaded on the value
  category of the receiver: the \<open>const &\<close> overload (suffix \<open>_lvalue\<close>) builds a new
  container, the \<open>&&\<close> overload (suffix \<open>_rvalue\<close>) modifies the receiver and returns it.
  The two overloads of \<open>map\<close> follow the resolver of container types, below.
\<close>



fun filter_loop :: "('a \<Rightarrow> bool) \<Rightarrow> 'a list \<Rightarrow> 'a list \<Rightarrow> 'a list" where
  "filter_loop p [] temp = temp"
| "filter_loop p (item # items) temp =
     filter_loop p items (if p item then emplace_end temp item else temp)"

definition filter_lvalue :: "('a \<Rightarrow> bool) \<Rightarrow> 'a list \<Rightarrow> 'a list" where
  "filter_lvalue p c = filter_loop p c []"

definition filter_rvalue :: "('a \<Rightarrow> bool) \<Rightarrow> 'a list \<Rightarrow> failure + 'a list" where
  "filter_rvalue p c = erase_if (\<lambda>v. \<not> p v) c"






subsection \<open>Reduce\<close>

definition reduce_init :: "('b \<Rightarrow> 'a \<Rightarrow> 'b) \<Rightarrow> 'b \<Rightarrow> 'a list \<Rightarrow> failure + 'b" where
  "reduce_init f init c = std_accumulate c (begin_it c) (end_it c) init f"

text \<open>The overload without a seed: \<open>std::accumulate(std::next(begin()), end(), *begin(), f)\<close>,
  with no test of the receiver.\<close>

definition reduce :: "('a \<Rightarrow> 'a \<Rightarrow> 'a) \<Rightarrow> 'a list \<Rightarrow> failure + 'a" where
  "reduce f c =
     (case next_it c (begin_it c) 1 of
        Inl e \<Rightarrow> Inl e
      | Inr first_it \<Rightarrow>
          (case deref c (begin_it c) of
             Inl e \<Rightarrow> Inl e
           | Inr init \<Rightarrow> std_accumulate c first_it (end_it c) init f))"

subsection \<open>Zip\<close>

text \<open>The loop of \<open>zip\<close>: two iterators, tested against their ends before each step,
  dereferenced, then advanced by one.\<close>

function zip_loop ::
  "'a list \<Rightarrow> 'b list \<Rightarrow> nat \<Rightarrow> nat \<Rightarrow> ('a \<times> 'b) list \<Rightarrow> failure + ('a \<times> 'b) list" where
  "zip_loop c other first_iter second_iter zipped =
     (if first_iter \<noteq> end_it c \<and> second_iter \<noteq> end_it other then
        (case deref c first_iter of
           Inl e \<Rightarrow> Inl e
         | Inr a \<Rightarrow>
             (case deref other second_iter of
                Inl e \<Rightarrow> Inl e
              | Inr b \<Rightarrow>
                  (case next_it c first_iter 1 of
                     Inl e \<Rightarrow> Inl e
                   | Inr first_iter' \<Rightarrow>
                       (case next_it other second_iter 1 of
                          Inl e \<Rightarrow> Inl e
                        | Inr second_iter' \<Rightarrow>
                            zip_loop c other first_iter' second_iter'
                              (emplace_end zipped (a, b))))))
      else Inr zipped)"
  by pat_completeness auto
termination
  by (relation "measure (\<lambda>(c, other, first_iter, second_iter, zipped). length c - first_iter)")
    (auto simp: deref_def next_it_def split: if_splits)

declare zip_loop.simps [simp del]

definition zip_seq :: "'a list \<Rightarrow> 'b list \<Rightarrow> failure + ('a \<times> 'b) list" where
  "zip_seq c other = zip_loop c other (begin_it c) (begin_it other) []"

text \<open>\<open>detail::container_size\<close>: \<open>c.size()\<close> where the container has it, otherwise
  \<open>std::distance(c.begin(), c.end())\<close>; both are the number of elements.\<close>

definition container_size :: "'a list \<Rightarrow> nat" where
  "container_size c = length c"

text \<open>\<open>std::min_element\<close> over a whole array: the position of the first smallest
  element, \<open>end()\<close> for an empty array.\<close>

fun min_element_loop :: "nat list \<Rightarrow> nat \<Rightarrow> nat \<Rightarrow> nat \<Rightarrow> nat" where
  "min_element_loop [] it smallest_val smallest = smallest"
| "min_element_loop (x # xs) it smallest_val smallest =
     (if x < smallest_val then min_element_loop xs (Suc it) x it
      else min_element_loop xs (Suc it) smallest_val smallest)"

definition std_min_element :: "nat list \<Rightarrow> nat" where
  "std_min_element xs = (case xs of [] \<Rightarrow> 0 | x # rest \<Rightarrow> min_element_loop rest 1 x 0)"

text \<open>
  The tuple of iterators of \<open>zip_n\<close>: one cursor per container, each a container with a
  position in it. The element types of the containers differ in C++; here they are all
  injected into one type \<open>'v\<close>, and a tuple of values is the list of its components.
\<close>

type_synonym 'v cursor = "'v list \<times> nat"

fun get_iter_tuple_value :: "'v cursor list \<Rightarrow> failure + 'v list" where
  "get_iter_tuple_value [] = Inr []"
| "get_iter_tuple_value ((c, it) # rest) =
     (case deref c it of
        Inl e \<Rightarrow> Inl e
      | Inr v \<Rightarrow>
          (case get_iter_tuple_value rest of Inl e \<Rightarrow> Inl e | Inr vs \<Rightarrow> Inr (v # vs)))"

fun advance_iter_tuple :: "'v cursor list \<Rightarrow> failure + 'v cursor list" where
  "advance_iter_tuple [] = Inr []"
| "advance_iter_tuple ((c, it) # rest) =
     (case next_it c it 1 of
        Inl e \<Rightarrow> Inl e
      | Inr it' \<Rightarrow>
          (case advance_iter_tuple rest of
             Inl e \<Rightarrow> Inl e
           | Inr rest' \<Rightarrow> Inr ((c, it') # rest')))"

function zip_n_loop ::
  "nat \<Rightarrow> nat \<Rightarrow> 'v cursor list \<Rightarrow> 'v list list \<Rightarrow> failure + 'v list list" where
  "zip_n_loop i smallest iter_tuple zipped =
     (if i < smallest then
        (case get_iter_tuple_value iter_tuple of
           Inl e \<Rightarrow> Inl e
         | Inr t \<Rightarrow>
             (case advance_iter_tuple iter_tuple of
                Inl e \<Rightarrow> Inl e
              | Inr iter_tuple' \<Rightarrow>
                  zip_n_loop (Suc i) smallest iter_tuple' (emplace_end zipped t)))
      else Inr zipped)"
  by pat_completeness auto
termination
  by (relation "measure (\<lambda>(i, smallest, iter_tuple, zipped). smallest - i)") auto

declare zip_n_loop.simps [simp del]

definition zip_n :: "'v list \<Rightarrow> 'v list list \<Rightarrow> failure + 'v list list" where
  "zip_n c containers =
     (let sizes = container_size c # map container_size containers in
      case deref sizes (std_min_element sizes) of
        Inl e \<Rightarrow> Inl e
      | Inr smallest \<Rightarrow>
          zip_n_loop 0 smallest
            ((c, begin_it c) # map (\<lambda>x. (x, begin_it x)) containers) [])"

subsection \<open>Sort\<close>

datatype iterator_category =
  input_iterator_tag | forward_iterator_tag | bidirectional_iterator_tag
  | random_access_iterator_tag

definition is_random_access :: "iterator_category \<Rightarrow> bool" where
  "is_random_access category = (category = random_access_iterator_tag)"

text \<open>
  \<open>std::sort\<close> and the member function \<open>sort\<close> of the wrapped container belong to the
  standard library and to the container; they are parameters of the model.
\<close>

type_synonym 'a sorter = "('a \<Rightarrow> 'a \<Rightarrow> bool) \<Rightarrow> 'a list \<Rightarrow> 'a list"

definition sort_helper ::
  "'a sorter \<Rightarrow> 'a sorter \<Rightarrow> ('a \<Rightarrow> 'a \<Rightarrow> bool) \<Rightarrow> bool \<Rightarrow> 'a list \<Rightarrow> 'a list" where
  "sort_helper std_sort member_sort cmp random_access c =
     (if random_access then std_sort cmp c else member_sort cmp c)"

definition sort_seq ::
  "'a sorter \<Rightarrow> 'a sorter \<Rightarrow> iterator_category \<Rightarrow> ('a \<Rightarrow> 'a \<Rightarrow> bool) \<Rightarrow> 'a list \<Rightarrow> 'a list" where
  "sort_seq std_sort member_sort category cmp c =
     sort_helper std_sort member_sort cmp (is_random_access category) c"

text \<open>\<open>std::is_sorted\<close> with a comparator: no element is followed by one that the
  comparator puts before it.\<close>

fun is_sorted :: "('a \<Rightarrow> 'a \<Rightarrow> bool) \<Rightarrow> 'a list \<Rightarrow> bool" where
  "is_sorted cmp [] = True"
| "is_sorted cmp [x] = True"
| "is_sorted cmp (x # y # zs) = (\<not> cmp y x \<and> is_sorted cmp (y # zs))"

text \<open>What the standard promises of a sort called with a comparator.\<close>

definition sorts_under :: "('a \<Rightarrow> 'a \<Rightarrow> bool) \<Rightarrow> 'a sorter \<Rightarrow> bool" where
  "sorts_under cmp srt = (\<forall>c. is_sorted cmp (srt cmp c) \<and> mset (srt cmp c) = mset c)"

text \<open>A sort by insertion, one function that keeps the promise.\<close>

fun insert_sorted :: "('a \<Rightarrow> 'a \<Rightarrow> bool) \<Rightarrow> 'a \<Rightarrow> 'a list \<Rightarrow> 'a list" where
  "insert_sorted cmp x [] = [x]"
| "insert_sorted cmp x (y # ys) =
     (if cmp x y then x # y # ys else y # insert_sorted cmp x ys)"

fun insertion_sort :: "'a sorter" where
  "insertion_sort cmp [] = []"
| "insertion_sort cmp (x # xs) = insert_sorted cmp x (insertion_sort cmp xs)"

section \<open>The string adaptor\<close>

text \<open>
  \<open>std::regex\<close> belongs to the standard library. A regular expression is modelled by what
  \<open>std::sregex_iterator\<close> enumerates for it over a subject string: the successive matches,
  from left to right, each given by its position and its length.
\<close>

type_synonym regex = "string \<Rightarrow> (nat \<times> nat) list"

text \<open>\<open>iter->str()\<close>: the matched characters.\<close>

definition match_str :: "string \<Rightarrow> nat \<times> nat \<Rightarrow> string" where
  "match_str s m = take (snd m) (drop (fst m) s)"

fun split_loop :: "string \<Rightarrow> (nat \<times> nat) list \<Rightarrow> string list \<Rightarrow> string list" where
  "split_loop s [] container = container"
| "split_loop s (m # iter) container =
     split_loop s iter (emplace_end container (match_str s m))"

definition split_str :: "string \<Rightarrow> regex \<Rightarrow> string list" where
  "split_str s delimiter = split_loop s (delimiter s) []"

text \<open>
  Expressions of the form \<open>C+\<close> for a class \<open>C\<close> of characters: the matches are the maximal
  runs of characters of the class. The scan keeps the position reached and the start of
  the run it is in, if any.
\<close>

fun class_plus_scan ::
  "(char \<Rightarrow> bool) \<Rightarrow> nat \<Rightarrow> nat option \<Rightarrow> string \<Rightarrow> (nat \<times> nat) list" where
  "class_plus_scan P pos None [] = []"
| "class_plus_scan P pos (Some start) [] = [(start, pos - start)]"
| "class_plus_scan P pos None (ch # s) =
     (if P ch then class_plus_scan P (Suc pos) (Some pos) s
      else class_plus_scan P (Suc pos) None s)"
| "class_plus_scan P pos (Some start) (ch # s) =
     (if P ch then class_plus_scan P (Suc pos) (Some start) s
      else (start, pos - start) # class_plus_scan P (Suc pos) None s)"

definition class_plus :: "(char \<Rightarrow> bool) \<Rightarrow> regex" where
  "class_plus P s = class_plus_scan P 0 None s"

text \<open>The white space of \<open>\s\<close>: space, tab, line feed, vertical tab, form feed, carriage
  return.\<close>

definition isspace :: "char \<Rightarrow> bool" where
  "isspace ch = (ch = CHR '' '' \<or> ch = CHR 0x09 \<or> ch = CHR 0x0A \<or> ch = CHR 0x0B
     \<or> ch = CHR 0x0C \<or> ch = CHR 0x0D)"


text \<open>The default argument of \<open>split\<close>, \<open>std::regex("\\S+")\<close>.\<close>

definition default_delimiter :: regex where
  "default_delimiter = class_plus (\<lambda>ch. \<not> isspace ch)"

text \<open>The expression \<open>,+\<close>.\<close>

definition commas :: regex where
  "commas = class_plus (\<lambda>ch. ch = CHR '','')"

section \<open>Rebinding a container type\<close>

text \<open>
  The types the resolver sees: a class that is not a specialisation of a template whose
  parameters are all types (\<open>Named\<close>), or such a specialisation \<open>Container<Args...>\<close>
  (\<open>Spec\<close>).
\<close>

datatype ty = Named string | Spec string "ty list"

text \<open>
  What the program declares about its types, as far as the resolver asks:
  \<^item> \<open>member_other C R\<close>: the type \<open>C::template other<R>\<close>, if \<open>C\<close> has such a member;
  \<^item> \<open>member_allocator_type C\<close>: the type \<open>C::allocator_type\<close>, if \<open>C\<close> has one;
  \<^item> \<open>member_value_type C\<close>: the type \<open>C::value_type\<close>, if \<open>C\<close> has one;
  \<^item> \<open>traits_rebind_alloc A R\<close>: \<open>std::allocator_traits<A>::rebind_alloc<R>\<close>, if well formed;
  \<^item> \<open>value_initialisable T\<close>: whether the expression \<open>T{}\<close> is well formed, that is
    whether \<open>T\<close> can be instantiated and an object of it created without arguments;
  \<^item> \<open>unwrap_decay T\<close>: the element type that \<open>std::make_tuple\<close> gives an argument of
    type \<open>T\<close>.
  A type computation that the compiler rejects has the result \<open>None\<close>.
\<close>

record decls =
  member_other :: "ty \<Rightarrow> ty \<Rightarrow> ty option"
  member_allocator_type :: "ty \<Rightarrow> ty option"
  member_value_type :: "ty \<Rightarrow> ty option"
  traits_rebind_alloc :: "ty \<Rightarrow> ty \<Rightarrow> ty option"
  value_initialisable :: "ty \<Rightarrow> bool"
  unwrap_decay :: "ty \<Rightarrow> ty"

text \<open>The primary template rebinds its second argument; the specialisation for \<open>false\<close>
  yields its second argument as it is.\<close>

definition rebind_alloc_if_matches_helper :: "decls \<Rightarrow> bool \<Rightarrow> ty \<Rightarrow> ty \<Rightarrow> ty option" where
  "rebind_alloc_if_matches_helper d matches allocator rebind =
     (if matches then traits_rebind_alloc d allocator rebind else Some allocator)"

text \<open>\<open>rebind_alloc_if_matches<Head, Allocator, Rebind>\<close> derives from
  \<open>rebind_alloc_if_matches_helper<std::is_same<Head, Allocator>::value, Allocator, Rebind>\<close>.\<close>

definition rebind_alloc_if_matches :: "decls \<Rightarrow> ty \<Rightarrow> ty \<Rightarrow> ty \<Rightarrow> ty option" where
  "rebind_alloc_if_matches d head allocator rebind =
     rebind_alloc_if_matches_helper d (head = allocator) allocator rebind"

text \<open>
  \<open>rebind_sequence_container_helper<Container, Rebind, Unchecked, Checked>\<close>. The loop
  moves the head of \<open>Unchecked\<close>, passed through \<open>rebind_alloc_if_matches\<close>, to the end
  of \<open>Checked\<close>; the base case drops the first checked type and puts \<open>Rebind\<close> in its
  place. With nothing checked no specialisation matches.
\<close>

fun rebind_sequence_container_helper ::
  "decls \<Rightarrow> ty \<Rightarrow> ty \<Rightarrow> ty list \<Rightarrow> ty list \<Rightarrow> ty option" where
  "rebind_sequence_container_helper d container rebind [] checked =
     (case container of
        Named n \<Rightarrow> None
      | Spec c args \<Rightarrow>
          (case checked of [] \<Rightarrow> None | old # checked' \<Rightarrow> Some (Spec c (rebind # checked'))))"
| "rebind_sequence_container_helper d container rebind (head # unchecked) checked =
     (case member_allocator_type d container of
        None \<Rightarrow> None
      | Some allocator \<Rightarrow>
          (case rebind_alloc_if_matches d head allocator rebind of
             None \<Rightarrow> None
           | Some t \<Rightarrow>
               rebind_sequence_container_helper d container rebind unchecked (checked @ [t])))"

text \<open>\<open>has_other<Container, Rebind>(0)\<close>: the overload for \<open>int\<close> is viable when
  \<open>typename Container::template other<Rebind>{}\<close> is a well-formed expression.\<close>

definition has_other :: "decls \<Rightarrow> ty \<Rightarrow> ty \<Rightarrow> bool" where
  "has_other d container rebind =
     (case member_other d container rebind of
        None \<Rightarrow> False
      | Some t \<Rightarrow> value_initialisable d t)"

definition rebind_prefer_other :: "decls \<Rightarrow> string \<Rightarrow> ty \<Rightarrow> bool \<Rightarrow> ty list \<Rightarrow> ty option" where
  "rebind_prefer_other d c rebind has args =
     (if has then member_other d (Spec c args) rebind
      else rebind_sequence_container_helper d (Spec c args) rebind args [])"

text \<open>\<open>rebind_sequence_container<Container>::other<Rebind>\<close>: the primary template for a
  class that is no specialisation, the partial specialisation for \<open>Container<Args...>\<close>.\<close>

definition rebind_sequence_container :: "decls \<Rightarrow> ty \<Rightarrow> ty \<Rightarrow> ty option" where
  "rebind_sequence_container d container rebind =
     (case container of
        Named n \<Rightarrow> member_other d container rebind
      | Spec c args \<Rightarrow>
          rebind_prefer_other d c rebind (has_other d (Spec c args) rebind) args)"

definition extended_sequence_container :: "ty \<Rightarrow> ty" where
  "extended_sequence_container t = Spec ''cec::extended_sequence_container'' [t]"

definition rebind_as_extended_container :: "decls \<Rightarrow> ty \<Rightarrow> ty \<Rightarrow> ty option" where
  "rebind_as_extended_container d container t =
     map_option extended_sequence_container (rebind_sequence_container d container t)"

definition std_pair :: "ty \<Rightarrow> ty \<Rightarrow> ty" where
  "std_pair a b = Spec ''std::pair'' [a, b]"

definition std_tuple :: "ty list \<Rightarrow> ty" where
  "std_tuple ts = Spec ''std::tuple'' ts"

fun value_types :: "decls \<Rightarrow> ty list \<Rightarrow> ty list option" where
  "value_types d [] = Some []"
| "value_types d (c # cs) =
     (case member_value_type d c of
        None \<Rightarrow> None
      | Some v \<Rightarrow> (case value_types d cs of None \<Rightarrow> None | Some vs \<Rightarrow> Some (v # vs)))"

text \<open>\<open>pack_value_types<Containers...>::type\<close> is
  \<open>decltype(std::make_tuple(typename Containers::value_type{}...))\<close>: every value type
  must have a well-formed \<open>value_type{}\<close>, and the tuple holds the types that
  \<open>std::make_tuple\<close> makes of them.\<close>

definition pack_value_types :: "decls \<Rightarrow> ty list \<Rightarrow> ty option" where
  "pack_value_types d containers =
     (case value_types d containers of
        None \<Rightarrow> None
      | Some vs \<Rightarrow>
          if list_all (value_initialisable d) vs then Some (std_tuple (map (unwrap_decay d) vs))
          else None)"

definition zip_t :: "decls \<Rightarrow> ty \<Rightarrow> ty \<Rightarrow> ty option" where
  "zip_t d sequence_container container =
     (case member_value_type d sequence_container of
        None \<Rightarrow> None
      | Some a \<Rightarrow>
          (case member_value_type d container of
             None \<Rightarrow> None
           | Some b \<Rightarrow> rebind_as_extended_container d sequence_container (std_pair a b)))"

definition zip_n_t :: "decls \<Rightarrow> ty \<Rightarrow> ty list \<Rightarrow> ty option" where
  "zip_n_t d sequence_container containers =
     (case pack_value_types d (sequence_container # containers) of
        None \<Rightarrow> None
      | Some t \<Rightarrow> rebind_as_extended_container d sequence_container t)"

subsection \<open>Map\<close>



subsection \<open>Sample declarations\<close>

text \<open>
  The declarations of the standard library that the examples need, of
  \<open>cec::extendable_basic_string\<close> and of the test suite's \<open>rebind_setup\<close>:
  \<^verbatim>\<open>
  struct MyList : std::list<int> {
      template <typename Rebind> using other = std::list<Rebind>; };
  template <typename T> struct MyTemplateList : std::list<T> {
      template <typename Rebind> using other = std::vector<Rebind>; };
  \<close>
\<close>

definition std_allocator :: "ty \<Rightarrow> ty" where
  "std_allocator t = Spec ''std::allocator'' [t]"

definition std_char_traits :: "ty \<Rightarrow> ty" where
  "std_char_traits t = Spec ''std::char_traits'' [t]"

definition std_reference_wrapper :: "ty \<Rightarrow> ty" where
  "std_reference_wrapper t = Spec ''std::reference_wrapper'' [t]"

text \<open>The containers with the parameters \<open><T, Allocator>\<close>, those with the parameters
  \<open><CharT, Traits, Allocator>\<close>, and \<open>MyTemplateList<T>\<close>, which inherits its member types
  from \<open>std::list<T>\<close>.\<close>

definition sequence_templates :: "string list" where
  "sequence_templates = [''std::vector'', ''std::list'', ''std::deque'', ''std::forward_list'']"

definition string_templates :: "string list" where
  "string_templates = [''std::basic_string'', ''cec::extendable_basic_string'']"

definition derived_templates :: "string list" where
  "derived_templates = [''MyTemplateList'']"

fun sample_other :: "ty \<Rightarrow> ty \<Rightarrow> ty option" where
  "sample_other (Named n) r =
     (if n = ''MyList'' then Some (Spec ''std::list'' [r, std_allocator r]) else None)"
| "sample_other (Spec n args) r =
     (if n = ''MyTemplateList'' then Some (Spec ''std::vector'' [r, std_allocator r])
      else None)"

fun sample_allocator_type :: "ty \<Rightarrow> ty option" where
  "sample_allocator_type (Named n) =
     (if n = ''MyList'' then Some (std_allocator (Named ''int'')) else None)"
| "sample_allocator_type (Spec n [t]) =
     (if n \<in> set derived_templates then Some (std_allocator t) else None)"
| "sample_allocator_type (Spec n [t, a]) =
     (if n \<in> set sequence_templates then Some a else None)"
| "sample_allocator_type (Spec n [t, traits, a]) =
     (if n \<in> set string_templates then Some a else None)"
| "sample_allocator_type (Spec n args) = None"

fun sample_value_type :: "ty \<Rightarrow> ty option" where
  "sample_value_type (Named n) = (if n = ''MyList'' then Some (Named ''int'') else None)"
| "sample_value_type (Spec n []) = None"
| "sample_value_type (Spec n (t # args)) =
     (if n \<in> set (sequence_templates @ string_templates @ derived_templates) then Some t
      else None)"

text \<open>\<open>std::allocator_traits<std::allocator<U>>::rebind_alloc<T>\<close> is \<open>std::allocator<T>\<close>.\<close>

fun sample_rebind_alloc :: "ty \<Rightarrow> ty \<Rightarrow> ty option" where
  "sample_rebind_alloc (Spec a [u]) r =
     (if a = ''std::allocator'' then Some (Spec a [r]) else None)"
| "sample_rebind_alloc t r = None"

text \<open>
  Of these types, \<open>std::reference_wrapper<T>\<close> has no default constructor; a string
  template can be instantiated when its second argument is the character traits of its
  first, and not with an allocator in that place; an extended container is created as
  the container it wraps is.
\<close>

fun sample_value_initialisable :: "ty \<Rightarrow> bool" where
  "sample_value_initialisable (Named n) = True"
| "sample_value_initialisable (Spec n [t]) =
     (if n = ''cec::extended_sequence_container'' then sample_value_initialisable t
      else n \<noteq> ''std::reference_wrapper'')"
| "sample_value_initialisable (Spec n [t, traits, a]) =
     (if n \<in> set string_templates then traits = std_char_traits t else True)"
| "sample_value_initialisable (Spec n args) = True"

text \<open>\<open>std::make_tuple\<close> leaves the types here that can be value-initialised as they are;
  a \<open>std::reference_wrapper<T>\<close>, which it would turn into a reference, cannot be
  value-initialised and is never given to it.\<close>

definition sample_unwrap_decay :: "ty \<Rightarrow> ty" where
  "sample_unwrap_decay t = t"

text \<open>The container behind \<open>cec::string\<close> and a \<open>std::vector\<close> with the default allocator.\<close>

definition extendable_string :: ty where
  "extendable_string =
     Spec ''cec::extendable_basic_string''
       [Named ''char'', std_char_traits (Named ''char''), std_allocator (Named ''char'')]"

definition std_vector :: "ty \<Rightarrow> ty" where
  "std_vector t = Spec ''std::vector'' [t, std_allocator t]"

definition sample_decls :: decls where
  "sample_decls =
     \<lparr> member_other = sample_other,
       member_allocator_type = sample_allocator_type,
       member_value_type = sample_value_type,
       traits_rebind_alloc = sample_rebind_alloc,
       value_initialisable = sample_value_initialisable,
       unwrap_decay = sample_unwrap_decay \<rparr>"

text \<open>
  The sample declarations with a class more, whose \<open>other\<close> depends on the element type:
  \<^verbatim>\<open>
  template <typename R> struct is_pair : std::false_type {};
  template <typename A, typename B>
  struct is_pair<std::pair<A, B>> : std::true_type {};
  template <typename T> struct Picky : std::list<T> {
      template <typename R> using other = typename std::conditional<
          is_pair<R>::value, std::vector<R>, std::list<R>>::type; };
  \<close>
\<close>

fun picky_other :: "ty \<Rightarrow> ty \<Rightarrow> ty option" where
  "picky_other (Spec n [t]) r =
     (if n = ''Picky'' then
        (case r of
           Named m \<Rightarrow> Some (Spec ''std::list'' [r, std_allocator r])
         | Spec m args \<Rightarrow>
             if m = ''std::pair'' then Some (Spec ''std::vector'' [r, std_allocator r])
             else Some (Spec ''std::list'' [r, std_allocator r]))
      else sample_other (Spec n [t]) r)"
| "picky_other c r = sample_other c r"

fun picky_value_type :: "ty \<Rightarrow> ty option" where
  "picky_value_type (Spec n [t]) =
     (if n = ''Picky'' then Some t else sample_value_type (Spec n [t]))"
| "picky_value_type c = sample_value_type c"

definition picky_decls :: decls where
  "picky_decls =
     sample_decls \<lparr> member_other := picky_other, member_value_type := picky_value_type \<rparr>"

section \<open>Properties\<close>

subsection \<open>What the loops and the standard algorithms compute\<close>

lemma count_if_loop_eq: "count_if_loop p xs ret = ret + int (length (filter p xs))"
  by (induction xs arbitrary: ret) simp_all

lemma filter_loop_eq: "filter_loop p xs temp = temp @ filter p xs"
  by (induction xs arbitrary: temp) (simp_all add: emplace_end_def)

lemma filter_lvalue_eq: "filter_lvalue p c = filter p c"
  by (simp add: filter_lvalue_def filter_loop_eq)

lemma remove_if_loop_eq: "remove_if_loop p xs kept = kept @ filter (\<lambda>x. \<not> p x) xs"
  by (induction xs arbitrary: kept) simp_all

lemma erase_to_end: "k \<le> length c \<Longrightarrow> erase c k (end_it c) = Inr (take k c)"
  by (simp add: erase_def end_it_def)

lemma erase_if_eq: "erase_if p c = Inr (filter (\<lambda>x. \<not> p x) c)"
  by (simp add: erase_if_def std_remove_if_def remove_if_loop_eq Let_def erase_to_end)

lemma filter_rvalue_eq: "filter_rvalue p c = Inr (filter p c)"
  by (simp add: filter_rvalue_def erase_if_eq)














subsection \<open>Removing a value that is read through a reference\<close>








lemma reduce_eq:
  "reduce f c = (case c of [] \<Rightarrow> Inl Undefined | x # xs \<Rightarrow> Inr (foldl f x xs))"
  by (cases c)
    (simp_all add: reduce_def next_it_def begin_it_def end_it_def deref_def std_accumulate_def
      range_of_def)

subsection \<open>The zip loops\<close>

lemma zip_loop_eq:
  "i \<le> length c \<Longrightarrow> j \<le> length other \<Longrightarrow>
   zip_loop c other i j zipped = Inr (zipped @ zip (drop i c) (drop j other))"
proof (induction c other i j zipped rule: zip_loop.induct)
  case (1 c other first_iter second_iter zipped)
  show ?case
  proof (cases "first_iter \<noteq> end_it c \<and> second_iter \<noteq> end_it other")
    case False
    then show ?thesis
      using "1.prems" by (subst zip_loop.simps) (auto simp: end_it_def)
  next
    case True
    with "1.prems" have lt: "first_iter < length c" "second_iter < length other"
      by (simp_all add: end_it_def)
    have d1: "deref c first_iter = Inr (c ! first_iter)"
      and d2: "deref other second_iter = Inr (other ! second_iter)"
      and n1: "next_it c first_iter 1 = Inr (Suc first_iter)"
      and n2: "next_it other second_iter 1 = Inr (Suc second_iter)"
      using lt by (simp_all add: deref_def next_it_def nat_add_distrib)
    have step: "zip_loop c other first_iter second_iter zipped =
        zip_loop c other (Suc first_iter) (Suc second_iter)
          (emplace_end zipped (c ! first_iter, other ! second_iter))"
      using True by (subst zip_loop.simps) (simp add: d1 d2 n1 n2)
    have ih: "zip_loop c other (Suc first_iter) (Suc second_iter)
          (emplace_end zipped (c ! first_iter, other ! second_iter)) =
        Inr (emplace_end zipped (c ! first_iter, other ! second_iter)
          @ zip (drop (Suc first_iter) c) (drop (Suc second_iter) other))"
      using "1.IH" [OF True d1 d2 n1 n2] lt by simp
    have "drop first_iter c = c ! first_iter # drop (Suc first_iter) c"
      and "drop second_iter other = other ! second_iter # drop (Suc second_iter) other"
      using lt by (simp_all add: Cons_nth_drop_Suc)
    with ih show ?thesis
      by (simp add: step emplace_end_def)
  qed
qed

lemma zip_seq_eq: "zip_seq c other = Inr (zip c other)"
  by (simp add: zip_seq_def begin_it_def zip_loop_eq)

lemma min_element_loop_Min:
  "pre \<noteq> [] \<Longrightarrow> it = length pre \<Longrightarrow> smallest < it \<Longrightarrow> pre ! smallest = smallest_val \<Longrightarrow>
   smallest_val = Min (set pre) \<Longrightarrow>
   min_element_loop xs it smallest_val smallest < length (pre @ xs)
   \<and> (pre @ xs) ! min_element_loop xs it smallest_val smallest = Min (set (pre @ xs))"
proof (induction xs arbitrary: pre it smallest_val smallest)
  case Nil
  then show ?case by simp
next
  case (Cons x xs)
  have fin: "finite (set pre)" "set pre \<noteq> {}"
    using Cons.prems(1) by simp_all
  have Min_snoc: "Min (set (pre @ [x])) = min x (Min (set pre))"
    using fin by simp
  show ?case
  proof (cases "x < smallest_val")
    case True
    have "min_element_loop xs (Suc it) x it < length ((pre @ [x]) @ xs)
      \<and> ((pre @ [x]) @ xs) ! min_element_loop xs (Suc it) x it = Min (set ((pre @ [x]) @ xs))"
    proof (rule Cons.IH)
      show "(pre @ [x]) ! it = x" using Cons.prems(2) by simp
      show "x = Min (set (pre @ [x]))"
        using True Cons.prems(5) unfolding Min_snoc by simp
    qed (use Cons.prems in simp_all)
    with True show ?thesis by simp
  next
    case False
    have "min_element_loop xs (Suc it) smallest_val smallest < length ((pre @ [x]) @ xs)
      \<and> ((pre @ [x]) @ xs) ! min_element_loop xs (Suc it) smallest_val smallest
          = Min (set ((pre @ [x]) @ xs))"
    proof (rule Cons.IH)
      show "(pre @ [x]) ! smallest = smallest_val"
        using Cons.prems(2,3,4) by (simp add: nth_append)
      show "smallest_val = Min (set (pre @ [x]))"
        using False Cons.prems(5) unfolding Min_snoc by simp
    qed (use Cons.prems in simp_all)
    with False show ?thesis by simp
  qed
qed

lemma deref_std_min_element:
  "sizes \<noteq> [] \<Longrightarrow> deref sizes (std_min_element sizes) = Inr (Min (set sizes))"
proof -
  assume "sizes \<noteq> []"
  then obtain x rest where sizes: "sizes = x # rest"
    by (cases sizes) auto
  have "min_element_loop rest 1 x 0 < length ([x] @ rest)
    \<and> ([x] @ rest) ! min_element_loop rest 1 x 0 = Min (set ([x] @ rest))"
    by (rule min_element_loop_Min) simp_all
  then show ?thesis
    by (simp add: sizes std_min_element_def deref_def)
qed

lemma get_iter_tuple_value_aligned:
  "\<forall>c \<in> set cs. k < length c \<Longrightarrow>
   get_iter_tuple_value (map (\<lambda>c. (c, k)) cs) = Inr (map (\<lambda>c. c ! k) cs)"
  by (induction cs) (simp_all add: deref_def)

lemma advance_iter_tuple_aligned:
  "\<forall>c \<in> set cs. k < length c \<Longrightarrow>
   advance_iter_tuple (map (\<lambda>c. (c, k)) cs) = Inr (map (\<lambda>c. (c, Suc k)) cs)"
  by (induction cs) (simp_all add: next_it_def nat_add_distrib)

lemma zip_n_loop_eq:
  "\<forall>c \<in> set cs. smallest \<le> length c \<Longrightarrow>
   zip_n_loop i smallest (map (\<lambda>c. (c, i)) cs) zipped =
     Inr (zipped @ map (\<lambda>k. map (\<lambda>c. c ! k) cs) [i..<smallest])"
proof (induction "smallest - i" arbitrary: i zipped)
  case 0
  then show ?case
    by (subst zip_n_loop.simps) simp
next
  case (Suc n)
  then have lt: "i < smallest" by simp
  with Suc.prems have inside: "\<forall>c \<in> set cs. i < length c" by auto
  have "zip_n_loop i smallest (map (\<lambda>c. (c, i)) cs) zipped =
      zip_n_loop (Suc i) smallest (map (\<lambda>c. (c, Suc i)) cs)
        (emplace_end zipped (map (\<lambda>c. c ! i) cs))"
    using lt
    by (subst zip_n_loop.simps)
      (simp add: get_iter_tuple_value_aligned [OF inside] advance_iter_tuple_aligned [OF inside])
  also have "\<dots> = Inr (emplace_end zipped (map (\<lambda>c. c ! i) cs)
      @ map (\<lambda>k. map (\<lambda>c. c ! k) cs) [Suc i..<smallest])"
    using Suc.hyps(2) Suc.prems by (intro Suc.hyps(1)) simp_all
  also have "\<dots> = Inr (zipped @ map (\<lambda>k. map (\<lambda>c. c ! k) cs) [i..<smallest])"
    using lt by (simp add: emplace_end_def upt_conv_Cons)
  finally show ?case .
qed

lemma zip_n_eq:
  "zip_n c containers =
     Inr (map (\<lambda>k. map (\<lambda>x. x ! k) (c # containers))
       [0..<Min (set (map length (c # containers)))])"
proof -
  let ?cs = "c # containers"
  let ?sizes = "container_size c # map container_size containers"
  have sizes: "?sizes = map length ?cs"
    by (simp add: container_size_def)
  have smallest: "deref ?sizes (std_min_element ?sizes) = Inr (Min (set (map length ?cs)))"
    using deref_std_min_element [of ?sizes] by (simp only: sizes) simp
  have cursors: "(c, begin_it c) # map (\<lambda>x. (x, begin_it x)) containers = map (\<lambda>x. (x, 0)) ?cs"
    by (simp add: begin_it_def)
  have bound: "\<forall>x \<in> set ?cs. Min (set (map length ?cs)) \<le> length x"
    by (auto intro: Min_le)
  show ?thesis
    unfolding zip_n_def Let_def smallest cursors
    using zip_n_loop_eq [OF bound, of 0 "[]"] by simp
qed

lemma list_of_length_3: "length xs = 3 \<Longrightarrow> xs = [xs ! 0, xs ! 1, xs ! 2]"
proof -
  assume "length xs = 3"
  then obtain a b c where "xs = [a, b, c]"
    by (auto simp: length_Suc_conv numeral_3_eq_3)
  then show ?thesis by simp
qed

subsection \<open>Sorting by insertion\<close>

lemma is_sorted_insert_sorted:
  "\<forall>a b. cmp a b \<longrightarrow> \<not> cmp b a \<Longrightarrow> is_sorted cmp ys \<Longrightarrow> is_sorted cmp (insert_sorted cmp x ys)"
proof (induction cmp ys rule: is_sorted.induct)
  case (1 cmp)
  then show ?case by simp
next
  case (2 cmp y)
  then show ?case by auto
next
  case (3 cmp y z zs)
  then show ?case by auto
qed

lemma mset_insert_sorted: "mset (insert_sorted cmp x ys) = add_mset x (mset ys)"
  by (induction ys) simp_all

lemma insertion_sort_sorts:
  "\<forall>a b. cmp a b \<longrightarrow> \<not> cmp b a \<Longrightarrow> sorts_under cmp insertion_sort"
proof -
  assume asym: "\<forall>a b. cmp a b \<longrightarrow> \<not> cmp b a"
  have "is_sorted cmp (insertion_sort cmp c)" for c
    by (induction c) (simp_all add: is_sorted_insert_sorted [OF asym])
  moreover have "mset (insertion_sort cmp c) = mset c" for c
    by (induction c) (simp_all add: mset_insert_sorted)
  ultimately show ?thesis
    by (simp add: sorts_under_def)
qed

subsection \<open>Splitting\<close>

lemma split_loop_eq: "split_loop s ms container = container @ map (match_str s) ms"
  by (induction ms arbitrary: container) (simp_all add: emplace_end_def)

lemma split_str_eq: "split_str s delimiter = map (match_str s) (delimiter s)"
  by (simp add: split_str_def split_loop_eq)

lemma class_plus_scan_in_run:
  "\<forall>ch \<in> set s. P ch \<Longrightarrow> start \<le> pos \<Longrightarrow>
   class_plus_scan P pos (Some start) s = [(start, pos + length s - start)]"
  by (induction s arbitrary: pos) simp_all

lemma class_plus_whole:
  "s \<noteq> [] \<Longrightarrow> \<forall>ch \<in> set s. P ch \<Longrightarrow> class_plus P s = [(0, length s)]"
  by (cases s) (simp_all add: class_plus_def class_plus_scan_in_run)

subsection \<open>The structural tier of the resolver\<close>



lemmas sample_simps =
  sample_decls_def has_other_def rebind_sequence_container_def rebind_prefer_other_def
  rebind_alloc_if_matches_def rebind_alloc_if_matches_helper_def std_allocator_def
  std_char_traits_def sequence_templates_def string_templates_def derived_templates_def

lemmas sample_type_simps =
  sample_simps rebind_as_extended_container_def extended_sequence_container_def
  extendable_string_def std_vector_def std_reference_wrapper_def std_pair_def std_tuple_def
  sample_unwrap_decay_def

section \<open>The claims\<close>

subsection \<open>C1: the explicit mapping before the structural substitution\<close>

text \<open>
  C1. The resolver is a function of the declarations, the container type and the target
  type \<open>T\<close>, so its result is determined by them. For every container type of a family
  whose declared \<open>other<T>\<close> is a sequence container, so that an object of it is created by
  \<open>other<T>{}\<close> as the class documentation requires, the resolver answers the declared
  \<open>other<T>\<close> as it is, also for a specialisation \<open>Container<Args...>\<close> whose structural
  substitution would give another type; only a container that declares no \<open>other<T>\<close> is
  rebound otherwise: a specialisation structurally, any other class not at all.
\<close>

theorem rebind_prefers_other:
  assumes "\<forall>U. member_other d C T = Some U \<longrightarrow> value_initialisable d U"
  shows "rebind_sequence_container d C T =
    (case member_other d C T of
       Some U \<Rightarrow> Some U
     | None \<Rightarrow>
         (case C of
            Named n \<Rightarrow> None
          | Spec c args \<Rightarrow> rebind_sequence_container_helper d C T args []))"
  using assms
  by (cases C)
    (auto simp: rebind_sequence_container_def rebind_prefer_other_def has_other_def
      split: option.splits)

text \<open>
  The test suite's \<open>Rebind\<close>: \<open>MyList\<close> gives a \<open>std::list\<close>, \<open>MyTemplateList<int>\<close> gives a
  \<open>std::vector\<close> and not \<open>MyTemplateList<double>\<close>, and \<open>std::vector<int>\<close>, which declares no
  \<open>other\<close>, is rebound structurally.
\<close>

theorem rebind_prefers_other_witness:
  "rebind_sequence_container sample_decls (Named ''MyList'') (Named ''double'')
     = Some (Spec ''std::list'' [Named ''double'', std_allocator (Named ''double'')])
   \<and> rebind_sequence_container sample_decls (Spec ''MyTemplateList'' [Named ''int''])
       (Named ''double'')
     = Some (Spec ''std::vector'' [Named ''double'', std_allocator (Named ''double'')])
   \<and> member_other sample_decls (std_vector (Named ''int'')) (Named ''double'') = None
   \<and> rebind_sequence_container sample_decls (std_vector (Named ''int'')) (Named ''double'')
     = Some (std_vector (Named ''double''))"
proof -
  let ?double = "Named ''double''"
  have a: "\<forall>U. member_other sample_decls (Named ''MyList'') ?double = Some U
      \<longrightarrow> value_initialisable sample_decls U"
    and b: "\<forall>U. member_other sample_decls (Spec ''MyTemplateList'' [Named ''int'']) ?double
      = Some U \<longrightarrow> value_initialisable sample_decls U"
    and c: "\<forall>U. member_other sample_decls (std_vector (Named ''int'')) ?double = Some U
      \<longrightarrow> value_initialisable sample_decls U"
    by (auto simp: sample_type_simps)
  show ?thesis
    using rebind_prefers_other [OF a] rebind_prefers_other [OF b] rebind_prefers_other [OF c]
    by (simp add: sample_type_simps)
qed

subsection \<open>C2: the structural substitution\<close>

text \<open>
  C2 at \<open>cec::extendable_basic_string<char, std::char_traits<char>, std::allocator<char>>\<close>,
  the container behind \<open>cec::string\<close>, rebound to \<open>int\<close>. The claim has the traits parameter
  pass through unchanged; the resolver puts the container's \<open>allocator_type\<close>,
  \<open>std::allocator<char>\<close>, in its place.
\<close>

theorem string_rebind_replaces_traits:
  "rebind_sequence_container sample_decls
     (Spec ''cec::extendable_basic_string''
        [Named ''char'', std_char_traits (Named ''char''), std_allocator (Named ''char'')])
     (Named ''int'')
   = Some (Spec ''cec::extendable_basic_string''
        [Named ''int'', std_allocator (Named ''char''), std_allocator (Named ''int'')])
   \<and> rebind_sequence_container sample_decls
     (Spec ''cec::extendable_basic_string''
        [Named ''char'', std_char_traits (Named ''char''), std_allocator (Named ''char'')])
     (Named ''int'')
   \<noteq> Some (Spec ''cec::extendable_basic_string''
        [Named ''int'', std_char_traits (Named ''char''), std_allocator (Named ''int'')])"
  by (simp add: sample_simps)

subsection \<open>C3: reduce without a seed\<close>

text \<open>
  C3, as the code has it. On a container with a first element \<open>x\<close> and remaining
  elements \<open>xs\<close>, \<open>reduce(f)\<close> returns the fold of \<open>f\<close> over \<open>xs\<close> seeded with \<open>x\<close>. On an empty
  container the code tests nothing and reads \<open>*begin()\<close>: the outcome is not defined.
\<close>

theorem reduce_folds_from_first:
  "reduce f (x # xs) = Inr (foldl f x xs) \<and> reduce f [] = Inl Undefined"
  by (simp add: reduce_eq)

text \<open>
  The test suite's \<open>reduce\<close>: the parts of "Hello, world".
\<close>

theorem reduce_folds_from_first_witness:
  "reduce (@) [''Hel'', ''lo'', '', wo'', ''rld''] = Inr ''Hello, world''"
  using reduce_folds_from_first [of "(@)" "''Hel''" "[''lo'', '', wo'', ''rld'']"]
  by simp

text \<open>
  C3 as stated fails: \<open>reduce\<close> on the empty container is no defined failure.
\<close>

theorem reduce_on_empty_undefined:
  "reduce (+) ([] :: int list) = Inl Undefined
   \<and> \<not> defined_failure (reduce (+) ([] :: int list))"
  by (simp add: reduce_eq defined_failure_def)

subsection \<open>C4: zip and zip_n stop with the shortest input\<close>

text \<open>
  C4. For all inputs \<open>zip\<close> and \<open>zip_n\<close> return, that is no iterator is dereferenced at its
  end or advanced beyond it; the result has as many elements as the shortest input, and
  its element at position \<open>i\<close> is built from the elements at position \<open>i\<close> of the inputs, in
  the order of the inputs.
\<close>

theorem zip_truncates_to_shortest:
  "(\<exists>r. zip_seq c other = Inr r \<and> length r = min (length c) (length other)
       \<and> (\<forall>i<length r. r ! i = (c ! i, other ! i)))
   \<and> (\<exists>r. zip_n c containers = Inr r
       \<and> length r = Min (set (map length (c # containers)))
       \<and> (\<forall>i<length r. r ! i = map (\<lambda>x. x ! i) (c # containers)))"
  by (simp add: zip_seq_eq zip_n_eq)

text \<open>
  A container of three elements zipped with containers of five and four elements.
\<close>

theorem zip_truncates_to_shortest_witness:
  "zip_seq [1, 2, 3 :: int] [10, 20, 30, 40, 50 :: int]
     = Inr [(1, 10), (2, 20), (3, 30)]
   \<and> zip_n [1, 2, 3 :: int] [[10, 20, 30, 40, 50], [7, 8, 9, 6]]
     = Inr [[1, 10, 7], [2, 20, 8], [3, 30, 9]]"
proof -
  let ?c = "[1, 2, 3 :: int]" and ?o = "[10, 20, 30, 40, 50 :: int]"
  let ?cs = "[[10, 20, 30, 40, 50], [7, 8, 9, 6 :: int]]"
  from zip_truncates_to_shortest [of ?c ?o ?cs]
  obtain r r' where r: "zip_seq ?c ?o = Inr r" "length r = 3"
      "\<forall>i<length r. r ! i = (?c ! i, ?o ! i)"
    and r': "zip_n ?c ?cs = Inr r'" "length r' = 3"
      "\<forall>i<length r'. r' ! i = map (\<lambda>x. x ! i) (?c # ?cs)"
    by auto
  have "r ! 0 = (1, 10)" "r ! 1 = (2, 20)" "r ! 2 = (3, 30)"
    using r(3) by (simp_all add: r(2))
  then have "r = [(1, 10), (2, 20), (3, 30)]"
    using list_of_length_3 [OF r(2)] by simp
  moreover have "r' ! 0 = [1, 10, 7]" "r' ! 1 = [2, 20, 8]" "r' ! 2 = [3, 30, 9]"
    using r'(3) by (simp_all add: r'(2))
  then have "r' = [[1, 10, 7], [2, 20, 8], [3, 30, 9]]"
    using list_of_length_3 [OF r'(2)] by simp
  ultimately show ?thesis
    using r(1) r'(1) by simp
qed

subsection \<open>C5: zip is zip_n with one other container\<close>




text \<open>
  With a declared \<open>other\<close> the two result types are what \<open>other\<close> makes of the pair and of
  the tuple, and need not be alike: for \<open>Picky<int>\<close>, a \<open>std::vector\<close> and a \<open>std::list\<close>.
\<close>

lemma declared_other_chooses_shape:
  "zip_t picky_decls (Spec ''Picky'' [Named ''int'']) (std_vector (Named ''int''))
     = Some (extended_sequence_container
         (std_vector (std_pair (Named ''int'') (Named ''int''))))
   \<and> zip_n_t picky_decls (Spec ''Picky'' [Named ''int'']) [std_vector (Named ''int'')]
     = Some (extended_sequence_container (Spec ''std::list''
         [std_tuple [Named ''int'', Named ''int''],
          std_allocator (std_tuple [Named ''int'', Named ''int''])]))"
  by (simp add: zip_t_def zip_n_t_def pack_value_types_def picky_decls_def sample_type_simps)

subsection \<open>C6: the two overloads agree\<close>




subsection \<open>C7: sort dispatches on the iterator category\<close>

text \<open>
  C7. \<open>sort\<close> calls \<open>std::sort\<close> for a container whose iterator category is
  \<open>random_access_iterator_tag\<close> and the member \<open>sort\<close> of the container otherwise. When both
  sort as the standard promises for the comparator, either way the container is left
  sorted under the comparator and a permutation of what it held.
\<close>

theorem sort_dispatch_sorted_permutation:
  assumes "sorts_under cmp std_sort" and "sorts_under cmp member_sort"
  shows "sort_seq std_sort member_sort category cmp c
      = (if category = random_access_iterator_tag then std_sort cmp c else member_sort cmp c)
    \<and> is_sorted cmp (sort_seq std_sort member_sort category cmp c)
    \<and> mset (sort_seq std_sort member_sort category cmp c) = mset c"
  using assms by (simp add: sort_seq_def sort_helper_def is_random_access_def sorts_under_def)

text \<open>
  The test suite's numbers, sorted once as a random-access container and once as a list,
  with the sort by insertion in both roles.
\<close>

theorem sort_dispatch_sorted_permutation_witness:
  "sorts_under ((<) :: int \<Rightarrow> int \<Rightarrow> bool) insertion_sort
   \<and> sort_seq insertion_sort insertion_sort random_access_iterator_tag (<) [3, 2, 1, 15, 2, 15 :: int]
       = [1, 2, 2, 3, 15, 15]
   \<and> sort_seq insertion_sort insertion_sort bidirectional_iterator_tag (<) [3, 2, 1, 15, 2, 15 :: int]
       = [1, 2, 2, 3, 15, 15]
   \<and> is_sorted (<) (sort_seq insertion_sort insertion_sort bidirectional_iterator_tag (<)
        [3, 2, 1, 15, 2, 15 :: int])
   \<and> mset (sort_seq insertion_sort insertion_sort bidirectional_iterator_tag (<)
        [3, 2, 1, 15, 2, 15 :: int]) = mset [3, 2, 1, 15, 2, 15]"
proof -
  have s: "sorts_under ((<) :: int \<Rightarrow> int \<Rightarrow> bool) insertion_sort"
    by (rule insertion_sort_sorts) auto
  show ?thesis
    using s sort_dispatch_sorted_permutation [OF s s, of random_access_iterator_tag "[3, 2, 1, 15, 2, 15]"]
      sort_dispatch_sorted_permutation [OF s s, of bidirectional_iterator_tag "[3, 2, 1, 15, 2, 15]"]
    by simp
qed

subsection \<open>C8: count_if and filter\<close>

text \<open>
  C8. For every container and every unary predicate \<open>p\<close>, \<open>count_if(p)\<close> is the number of
  elements of the container that \<open>filter(p)\<close> returns for the same receiver, with either
  overload of \<open>filter\<close>.
\<close>

theorem count_if_eq_length_filter:
  "count_if p c = int (length (filter_lvalue p c))
   \<and> (\<exists>r. filter_rvalue p c = Inr r \<and> count_if p c = int (length r))"
  by (simp add: count_if_def std_count_if_def count_if_loop_eq filter_lvalue_eq
      filter_rvalue_eq)

subsection \<open>C9: split\<close>

text \<open>
  C9, as the code has it. \<open>split\<close> returns the matches of the expression in the string,
  in their order. For an expression without a match in the string it returns an empty
  container. With the default expression \<open>\S+\<close> a string that is not empty and holds no
  white space is one match, and \<open>split\<close> returns the container of that string alone.
\<close>

theorem split_yields_matches:
  "split_str s delimiter = map (match_str s) (delimiter s)
   \<and> (delimiter s = [] \<longrightarrow> split_str s delimiter = [])
   \<and> (s \<noteq> [] \<and> (\<forall>ch \<in> set s. \<not> isspace ch) \<longrightarrow> split_str s default_delimiter = [s])"
  by (simp add: split_str_eq default_delimiter_def class_plus_whole match_str_def)

text \<open>
  The test suite's \<open>split\<close> of "word", and "word" split at commas.
\<close>

theorem split_yields_matches_witness:
  "split_str ''word'' default_delimiter = [''word'']
   \<and> commas ''word'' = [] \<and> split_str ''word'' commas = []"
proof -
  have "\<forall>ch \<in> set ''word''. \<not> isspace ch"
    by (simp add: isspace_def)
  moreover have "commas ''word'' = []"
    by (simp add: commas_def class_plus_def)
  ultimately show ?thesis
    using split_yields_matches [of "''word''" default_delimiter]
      split_yields_matches [of "''word''" commas]
    by simp
qed

text \<open>
  C9 as stated fails: the expression \<open>,+\<close> has no match in "word", and \<open>split\<close> returns
  an empty container, not the container of "word".
\<close>

theorem split_without_match_is_empty:
  "commas ''word'' = [] \<and> split_str ''word'' commas = []
   \<and> split_str ''word'' commas \<noteq> [''word'']"
  by (simp add: commas_def class_plus_def split_str_eq)

subsection \<open>C10: the elements kept stay in order\<close>




end
